theory Spec2Isabelle
  imports Main "HOL-Library.Char_ord" "HOL-Library.List_Lexorder" "HOL-Library.Sublist"
begin

section \<open>Go strings and the standard library as this package uses it\<close>

text \<open>
  A Go \<^verbatim>\<open>string\<close> is a sequence of bytes; it is modelled as \<^typ>\<open>string\<close>
  (a list of 8-bit characters). Comparison of strings in Go is bytewise lexicographic,
  which is the order of \<^typ>\<open>char list\<close> used below.
\<close>

text \<open>\<^verbatim>\<open>strings.Join(elems, sep)\<close>.\<close>

fun Join :: "string list \<Rightarrow> string \<Rightarrow> string" where
  "Join [] sep = []"
| "Join [x] sep = x"
| "Join (x # y # xs) sep = x @ sep @ Join (y # xs) sep"

text \<open>\<^verbatim>\<open>strings.Index(s, substr)\<close>: the index of the first occurrence, or -1.\<close>

fun Index :: "string \<Rightarrow> string \<Rightarrow> int" where
  "Index [] substr = (if substr = [] then 0 else - 1)"
| "Index (c # cs) substr =
     (if prefix substr (c # cs) then 0
      else (let i = Index cs substr in if i < 0 then - 1 else i + 1))"

subsection \<open>net/url: Values\<close>

text \<open>
  \<^verbatim>\<open>url.Values\<close> is \<^verbatim>\<open>map[string][]string\<close>. It is modelled as an association
  list with one entry per key; the order of the entries is the order in which the keys
  were first added, which Go does not observe: \<^verbatim>\<open>Encode\<close> sorts by key.
\<close>

type_synonym Values = "(string \<times> string list) list"

text \<open>\<^verbatim>\<open>v.Add(key, value)\<close>: \<^verbatim>\<open>v[key] = append(v[key], value)\<close>.\<close>

fun Values_Add :: "Values \<Rightarrow> string \<Rightarrow> string \<Rightarrow> Values" where
  "Values_Add [] key val = [(key, [val])]"
| "Values_Add ((k, vs) # m) key val =
     (if k = key then (k, vs @ [val]) # m else (k, vs) # Values_Add m key val)"

text \<open>\<^verbatim>\<open>v.Set(key, value)\<close>: \<^verbatim>\<open>v[key] = []string{value}\<close>.\<close>

fun Values_Set :: "Values \<Rightarrow> string \<Rightarrow> string \<Rightarrow> Values" where
  "Values_Set [] key val = [(key, [val])]"
| "Values_Set ((k, vs) # m) key val =
     (if k = key then (k, [val]) # m else (k, vs) # Values_Set m key val)"

text \<open>The map lookup \<^verbatim>\<open>vs, ok := v[key]\<close>: \<open>None\<close> when the key is absent.\<close>

definition Values_lookup :: "Values \<Rightarrow> string \<Rightarrow> string list option" where
  "Values_lookup v key = map_of v key"

text \<open>
  \<^verbatim>\<open>url.QueryEscape\<close>: letters, digits and \<^verbatim>\<open>- _ . ~\<close> stay, a space becomes
  \<^verbatim>\<open>+\<close>, every other byte becomes \<^verbatim>\<open>%XX\<close> in upper-case hexadecimal.
\<close>

definition shouldEscape :: "char \<Rightarrow> bool" where
  "shouldEscape c =
     (if (CHR ''a'' \<le> c \<and> c \<le> CHR ''z'') \<or> (CHR ''A'' \<le> c \<and> c \<le> CHR ''Z'')
         \<or> (CHR ''0'' \<le> c \<and> c \<le> CHR ''9'') then False
      else if c = CHR ''-'' \<or> c = CHR ''_'' \<or> c = CHR ''.'' \<or> c = CHR ''~'' then False
      else True)"

definition upperhex :: "nat \<Rightarrow> char" where
  "upperhex n = ''0123456789ABCDEF'' ! (n mod 16)"

fun QueryEscape :: "string \<Rightarrow> string" where
  "QueryEscape [] = []"
| "QueryEscape (c # cs) =
     (if c = CHR '' '' then CHR ''+'' # QueryEscape cs
      else if shouldEscape c
        then CHR ''%'' # upperhex (of_char c div 16) # upperhex (of_char c mod 16) # QueryEscape cs
      else c # QueryEscape cs)"

text \<open>
  \<^verbatim>\<open>v.Encode()\<close>: the keys in sorted order, for each key its values in order, each
  written \<^verbatim>\<open>key=value\<close> (both escaped), separated by \<^verbatim>\<open>&\<close>.
\<close>

definition Values_Encode :: "Values \<Rightarrow> string" where
  "Values_Encode v =
     Join (concat (map (\<lambda>k. map (\<lambda>x. QueryEscape k @ ''='' @ QueryEscape x)
                                (case map_of v k of None \<Rightarrow> [] | Some vs \<Rightarrow> vs))
                       (sort (remdups (map fst v))))) ''&''"

subsection \<open>regexp: the pattern of \<^verbatim>\<open>DateRegexp\<close>\<close>

text \<open>
  \<^verbatim>\<open>DateRegexp = regexp.MustCompile("\\d{4}-\\d{2}-\\d{2}")\<close>. The pattern has no
  anchors, and \<^verbatim>\<open>MatchString\<close> reports whether the string contains a match.
  \<^verbatim>\<open>\d\<close> is an ASCII digit. \<open>dateAt s\<close> says that a match starts at the head of \<open>s\<close>.
\<close>

definition isDigit :: "char \<Rightarrow> bool" where
  "isDigit c = (CHR ''0'' \<le> c \<and> c \<le> CHR ''9'')"

fun dateAt :: "string \<Rightarrow> bool" where
  "dateAt (y1 # y2 # y3 # y4 # d1 # m1 # m2 # d2 # t1 # t2 # rest) =
     (isDigit y1 \<and> isDigit y2 \<and> isDigit y3 \<and> isDigit y4 \<and> d1 = CHR ''-'' \<and>
      isDigit m1 \<and> isDigit m2 \<and> d2 = CHR ''-'' \<and> isDigit t1 \<and> isDigit t2)"
| "dateAt s = False"

fun DateRegexp_MatchString :: "string \<Rightarrow> bool" where
  "DateRegexp_MatchString [] = False"
| "DateRegexp_MatchString (c # cs) = (dateAt (c # cs) \<or> DateRegexp_MatchString cs)"

text \<open>
  The reading of the specification: the whole string is \<^verbatim>\<open>YYYY-MM-DD\<close>, ten
  characters matching the pattern from the first to the last.
\<close>

definition matchesDateExactly :: "string \<Rightarrow> bool" where
  "matchesDateExactly s = (length s = 10 \<and> dateAt s)"

section \<open>claims.go\<close>

definition ErrInvalidClaimSearchParams_msg :: string where
  "ErrInvalidClaimSearchParams_msg = ''invalid claim search params''"

definition ErrInvalidPatchClaimsParams_msg :: string where
  "ErrInvalidPatchClaimsParams_msg = ''invalid patch claims params''"

type_synonym ClaimStatus = string

definition ClaimStatusActive :: ClaimStatus where "ClaimStatusActive = ''active''"
definition ClaimStatusAppealed :: ClaimStatus where "ClaimStatusAppealed = ''appealed''"
definition ClaimStatusDisputed :: ClaimStatus where "ClaimStatusDisputed = ''disputed''"
definition ClaimStatusInactive :: ClaimStatus where "ClaimStatusInactive = ''inactive''"
definition ClaimStatusPending :: ClaimStatus where "ClaimStatusPending = ''pending''"
definition ClaimStatusPotential :: ClaimStatus where "ClaimStatusPotential = ''potential''"
definition ClaimStatusRoutedForReview :: ClaimStatus where
  "ClaimStatusRoutedForReview = ''routedForReview''"
definition ClaimStatusTakedown :: ClaimStatus where "ClaimStatusTakedown = ''takedown''"

definition ClaimSortDate :: string where "ClaimSortDate = ''date''"
definition ClaimSortViewCount :: string where "ClaimSortViewCount = ''viewCount''"

text \<open>\<^verbatim>\<open>func (s ClaimStatus) Valid() bool\<close>: the switch over the eight constants.\<close>

definition ClaimStatus_Valid :: "ClaimStatus \<Rightarrow> bool" where
  "ClaimStatus_Valid s =
     (if s = ClaimStatusActive \<or> s = ClaimStatusAppealed \<or> s = ClaimStatusDisputed \<or>
         s = ClaimStatusInactive \<or> s = ClaimStatusPending \<or> s = ClaimStatusPotential \<or>
         s = ClaimStatusRoutedForReview \<or> s = ClaimStatusTakedown
      then True else False)"

record SearchClaimsParams =
  AssetId :: string
  Q :: string
  ReferenceId :: string
  VideoIds :: "string list"
  PageToken :: string
  Status :: ClaimStatus
  IncludeThirdPartyClaims :: bool
  OnBehalfOfContentOwner :: string
  Sort :: string
  StatusModifiedAfter :: string

text \<open>
  The loop of \<^verbatim>\<open>Validate\<close> over \<^verbatim>\<open>required\<close>: it counts the non-empty entries and
  returns false from \<^verbatim>\<open>Validate\<close> as soon as the count exceeds one. The result is
  \<open>False\<close> for that early return and \<open>True\<close> when the loop runs to its end.
\<close>

fun requiredLoop :: "string list \<Rightarrow> nat \<Rightarrow> bool" where
  "requiredLoop [] count = True"
| "requiredLoop (r # rs) count =
     (let count' = (if r \<noteq> [] then count + 1 else count)
      in if count' > 1 then False else requiredLoop rs count')"

definition SearchClaimsParams_Validate :: "SearchClaimsParams \<Rightarrow> bool" where
  "SearchClaimsParams_Validate p =
     (let required = [AssetId p, Q p, ReferenceId p, Join (VideoIds p) '','',
                      SearchClaimsParams.Status p]
      in if \<not> requiredLoop required 0 then False
         else if SearchClaimsParams.Status p = [] \<or> \<not> ClaimStatus_Valid (SearchClaimsParams.Status p)
           then False
         else True)"

definition SearchClaimsParams_Values :: "SearchClaimsParams \<Rightarrow> Values" where
  "SearchClaimsParams_Values p =
     (let vals = [];
          vals = (if AssetId p \<noteq> [] then Values_Add vals ''assetId'' (AssetId p) else vals);
          vals = (if Q p \<noteq> [] then Values_Add vals ''q'' (Q p) else vals);
          vals = (if ReferenceId p \<noteq> [] then Values_Add vals ''referenceId'' (ReferenceId p)
                  else vals);
          vals = (if length (VideoIds p) > 0
                  then Values_Add vals ''videoId'' (Join (VideoIds p) '','') else vals);
          vals = (if SearchClaimsParams.Status p \<noteq> []
                  then Values_Add vals ''status'' (SearchClaimsParams.Status p) else vals);
          vals = (if IncludeThirdPartyClaims p
                  then Values_Add vals ''includeThirdPartyClaims'' ''true''
                  else Values_Add vals ''includeThirdPartyClaims'' ''false'');
          vals = (if SearchClaimsParams.OnBehalfOfContentOwner p \<noteq> []
                  then Values_Add vals ''onBehalfOfContentOwner''
                         (SearchClaimsParams.OnBehalfOfContentOwner p)
                  else vals);
          vals = (if SearchClaimsParams.PageToken p \<noteq> []
                  then Values_Add vals ''pageToken'' (SearchClaimsParams.PageToken p) else vals);
          vals = (if Sort p = ClaimSortDate then Values_Add vals ''sort'' ''date''
                  else if Sort p = ClaimSortViewCount then Values_Add vals ''sort'' ''viewCount''
                  else vals);
          vals = (if StatusModifiedAfter p \<noteq> [] \<and> DateRegexp_MatchString (StatusModifiedAfter p)
                  then Values_Add vals ''statusModifiedAfter'' (StatusModifiedAfter p) else vals)
      in vals)"

text \<open>
  The reading of the specification of "set": how many of the four search filters are
  set. A list of video ids is set when it is not empty.
\<close>

definition filtersSet :: "SearchClaimsParams \<Rightarrow> nat" where
  "filtersSet p =
     (if AssetId p \<noteq> [] then 1 else 0) + (if Q p \<noteq> [] then 1 else 0) +
     (if ReferenceId p \<noteq> [] then 1 else 0) + (if VideoIds p \<noteq> [] then 1 else 0)"

text \<open>
  \<^verbatim>\<open>PatchClaimsParams\<close> and the \<^verbatim>\<open>Claim\<close> resource that \<^verbatim>\<open>PatchClaims\<close> decodes.
\<close>

record PatchClaimsParams =
  ClaimId :: string
  OnBehalfOfContentOwner :: string
  Status :: ClaimStatus

record Claim =
  AssetId :: string
  BlockOutsideOwnership :: bool
  ContentType :: string
  Id :: string
  IsPartnerUploaded :: bool
  Kind :: string
  Status :: ClaimStatus
  TimeCreated :: string
  TimeStatusLastModified :: string
  VideoId :: string

text \<open>The zero value of \<^verbatim>\<open>var out Claim\<close>.\<close>

definition zeroClaim :: Claim where
  "zeroClaim = \<lparr>AssetId = [], BlockOutsideOwnership = False, ContentType = [], Id = [],
      IsPartnerUploaded = False, Kind = [], Status = [], TimeCreated = [],
      TimeStatusLastModified = [], VideoId = []\<rparr>"

section \<open>Errors\<close>

text \<open>
  Modelled from the spec: the struct \<^verbatim>\<open>Error\<close> and the tags \<^verbatim>\<open>ErrTypeUnknown\<close>,
  \<^verbatim>\<open>ErrTypeBody\<close> and \<^verbatim>\<open>ErrTypeJSON\<close> are declared in a file that is not among the
  sources. The specification gives the error as status code, error-type tag, human
  description and raw body, and the tag as one of: an upstream structured error (the tag
  is then the text parsed from the body), unknown, body read failure, invalid JSON.
\<close>

datatype ErrorType = ErrTypeUpstream string | ErrTypeUnknown | ErrTypeBody | ErrTypeJSON

record Error =
  StatusCode :: int
  ErrorType :: ErrorType
  Description :: string
  Body :: string

text \<open>The zero value of \<^verbatim>\<open>var e Error\<close>.\<close>

definition zeroError :: Error where
  "zeroError = \<lparr>StatusCode = 0, ErrorType = ErrTypeUpstream [], Description = [], Body = []\<rparr>"

text \<open>
  A value of the interface type \<^verbatim>\<open>error\<close> carries its dynamic type. The package
  returns \<^verbatim>\<open>Error\<close> structs by value (\<^verbatim>\<open>var e Error; ...; return e\<close> and
  \<^verbatim>\<open>return Error{...}\<close> in \<^verbatim>\<open>DecodeResponse\<close>), so \<^verbatim>\<open>Error\<close> has its method on
  the value receiver and both \<^verbatim>\<open>Error\<close> and \<^verbatim>\<open>*Error\<close> are error types. A type
  assertion \<^verbatim>\<open>err.(*Error)\<close> succeeds on \<open>ErrorPointer\<close> only.
\<close>

datatype go_error =
    ErrorValue Error      \<comment> \<open>dynamic type \<^verbatim>\<open>Error\<close>\<close>
  | ErrorPointer Error    \<comment> \<open>dynamic type \<^verbatim>\<open>*Error\<close>\<close>
  | ErrorsNew string      \<comment> \<open>a package-level \<^verbatim>\<open>errors.New(text)\<close>\<close>
  | ErrorOther string     \<comment> \<open>an error of another package: transport, io\<close>

definition ErrInvalidClaimSearchParams :: go_error where
  "ErrInvalidClaimSearchParams = ErrorsNew ErrInvalidClaimSearchParams_msg"

definition ErrInvalidPatchClaimsParams :: go_error where
  "ErrInvalidPatchClaimsParams = ErrorsNew ErrInvalidPatchClaimsParams_msg"

section \<open>io, net/http and encoding/json\<close>

text \<open>
  An \<^verbatim>\<open>io.Reader\<close>: the bytes it still delivers, and the error it reports in place of
  end-of-file once they are delivered, if any (a connection that breaks).
\<close>

record Reader =
  pending :: string
  failure :: "string option"

text \<open>\<^verbatim>\<open>bytes.NewReader(b)\<close>.\<close>

definition NewReader :: "string \<Rightarrow> Reader" where
  "NewReader b = \<lparr>pending = b, failure = None\<rparr>"

text \<open>
  \<^verbatim>\<open>ioutil.ReadAll(r)\<close>: the text of the error (\<open>Inl\<close>) or the bytes read
  (\<open>Inr\<close>), and the reader afterwards.
\<close>

definition ReadAll :: "Reader \<Rightarrow> (string + string) \<times> Reader" where
  "ReadAll r =
     (case failure r of
        None \<Rightarrow> (Inr (pending r), r\<lparr>pending := []\<rparr>)
      | Some msg \<Rightarrow> (Inl msg, r\<lparr>pending := []\<rparr>))"

text \<open>\<^verbatim>\<open>http.Response\<close>, the two fields the package reads.\<close>

record Response =
  StatusCode :: int
  Body :: Reader

text \<open>
  \<^verbatim>\<open>encoding/json\<close> is a library; its functions are parameters of the model.
  \<^item> \<open>DecodeError r e\<close> and \<open>Decode r v\<close> are \<^verbatim>\<open>json.NewDecoder(r).Decode(&e)\<close> on
    an \<^verbatim>\<open>Error\<close> and on a target of the caller: the text of the error if there is one,
    the target afterwards (a failed decode may have filled some fields) and the reader
    afterwards (the decoder reads ahead into its own buffer).
  \<^item> \<open>DecodeNil r\<close> is \<^verbatim>\<open>json.NewDecoder(r).Decode(nil)\<close>. It never succeeds: the decoder
    reports the read error, the syntax error, or \<^verbatim>\<open>InvalidUnmarshalError\<close> for the nil
    target, so its result is the text of an error.
  \<^item> \<open>Marshal m\<close> is \<^verbatim>\<open>json.Marshal\<close> of a \<^verbatim>\<open>map[string]interface{}\<close> with string
    values: the text of the error or the encoded bytes.
\<close>

record 'a json =
  DecodeError :: "Reader \<Rightarrow> Error \<Rightarrow> string option \<times> Error \<times> Reader"
  Decode :: "Reader \<Rightarrow> 'a \<Rightarrow> string option \<times> 'a \<times> Reader"
  DecodeNil :: "Reader \<Rightarrow> string \<times> Reader"
  Marshal :: "(string \<times> string) list \<Rightarrow> string + string"

section \<open>request.go\<close>

definition BaseUrlV3 :: string where
  "BaseUrlV3 = ''https://www.googleapis.com/youtube/v3''"

definition YoutubePartnerV1 :: string where
  "YoutubePartnerV1 = ''https://www.googleapis.com/youtube/partner/v1''"

record Request =
  Method :: string
  Url :: string
  Params :: Values
  Body :: "string option"

text \<open>
  \<^verbatim>\<open>RequestRunner.Run\<close>: the error or the response. Every operation returns, next to
  its own results, the list of the requests it handed to the runner.
\<close>

type_synonym RequestRunner = "Request \<Rightarrow> go_error + Response"

text \<open>
  \<^verbatim>\<open>DecodeResponse(res, out)\<close> of request.go. \<open>out\<close> is \<open>None\<close> for a nil target and
  \<open>Some v\<close> for a pointer to a target that holds \<open>v\<close>. The result is the returned error
  (\<open>None\<close> for nil) and the target afterwards.
\<close>

definition DecodeResponse ::
  "'a json \<Rightarrow> Response \<Rightarrow> 'a option \<Rightarrow> go_error option \<times> 'a option" where
  "DecodeResponse js res out =
     (if Response.StatusCode res \<ge> 400 then
        (case ReadAll (Response.Body res) of
           (Inl err, _) \<Rightarrow> (Some (ErrorOther err), out)
         | (Inr body, _) \<Rightarrow>
             (case DecodeError js (NewReader body) zeroError of
                (None, e, _) \<Rightarrow>
                  (Some (ErrorValue (e\<lparr>Error.StatusCode := Response.StatusCode res\<rparr>)), out)
              | (Some _, e, _) \<Rightarrow>
                  (Some (ErrorValue (e\<lparr>Error.StatusCode := Response.StatusCode res,
                                         ErrorType := ErrTypeUnknown,
                                         Description := body\<rparr>)), out)))
      else
        (case out of
           None \<Rightarrow> (None, None)
         | Some v \<Rightarrow>
             (case Decode js (Response.Body res) v of
                (None, v', _) \<Rightarrow> (None, Some v')
              | (Some err, v', rest) \<Rightarrow>
                  (case ReadAll rest of
                     (Inl bodyErr, _) \<Rightarrow>
                       (Some (ErrorValue \<lparr>Error.StatusCode = 0, ErrorType = ErrTypeBody,
                                           Description = bodyErr, Error.Body = []\<rparr>), Some v')
                   | (Inr body, _) \<Rightarrow>
                       (Some (ErrorValue \<lparr>Error.StatusCode = 0, ErrorType = ErrTypeJSON,
                                           Description = err, Error.Body = body\<rparr>), Some v')))))"

text \<open>
  The \<^verbatim>\<open>DecodeResponse\<close> of the second copy of request.go among the sources: it decodes
  the error from the response body itself and reads what is left of the body afterwards,
  and it has no test for a nil target.
\<close>

definition DecodeResponse_part_006 ::
  "'a json \<Rightarrow> Response \<Rightarrow> 'a option \<Rightarrow> go_error option \<times> 'a option" where
  "DecodeResponse_part_006 js res out =
     (if Response.StatusCode res \<ge> 400 then
        (case DecodeError js (Response.Body res) zeroError of
           (None, e, _) \<Rightarrow>
             (Some (ErrorValue (e\<lparr>Error.StatusCode := Response.StatusCode res\<rparr>)), out)
         | (Some _, e, rest) \<Rightarrow>
             (case ReadAll rest of
                (Inl err, _) \<Rightarrow> (Some (ErrorOther err), out)
              | (Inr body, _) \<Rightarrow>
                  (Some (ErrorValue (e\<lparr>Error.StatusCode := Response.StatusCode res,
                                         ErrorType := ErrTypeUnknown,
                                         Description := body\<rparr>)), out)))
      else
        (case (case out of
                 None \<Rightarrow> (case DecodeNil js (Response.Body res) of
                            (err, rest) \<Rightarrow> (Some err, None, rest))
               | Some v \<Rightarrow> (case Decode js (Response.Body res) v of
                              (err, v', rest) \<Rightarrow> (err, Some v', rest))) of
           (None, out', _) \<Rightarrow> (None, out')
         | (Some err, out', rest) \<Rightarrow>
             (case ReadAll rest of
                (Inl bodyErr, _) \<Rightarrow>
                  (Some (ErrorValue \<lparr>Error.StatusCode = 0, ErrorType = ErrTypeBody,
                                      Description = bodyErr, Error.Body = []\<rparr>), out')
              | (Inr body, _) \<Rightarrow>
                  (Some (ErrorValue \<lparr>Error.StatusCode = 0, ErrorType = ErrTypeJSON,
                                      Description = err, Error.Body = body\<rparr>), out'))))"

section \<open>claims.go: PatchClaims\<close>

definition PatchClaimUrl :: string where
  "PatchClaimUrl = YoutubePartnerV1 @ ''/claims''"

definition PatchClaimsParams_Validate :: "PatchClaimsParams \<Rightarrow> bool" where
  "PatchClaimsParams_Validate p =
     (ClaimId p \<noteq> [] \<and> PatchClaimsParams.Status p \<noteq> [] \<and>
      ClaimStatus_Valid (PatchClaimsParams.Status p))"

definition PatchClaimsParams_Url :: "PatchClaimsParams \<Rightarrow> string" where
  "PatchClaimsParams_Url p = PatchClaimUrl @ ''/'' @ ClaimId p"

definition PatchClaimsParams_Params :: "PatchClaimsParams \<Rightarrow> Values" where
  "PatchClaimsParams_Params p =
     (let v = [];
          v = (if PatchClaimsParams.OnBehalfOfContentOwner p \<noteq> []
               then Values_Set v ''onBehalfOfContentOwner''
                      (PatchClaimsParams.OnBehalfOfContentOwner p)
               else v)
      in v)"

text \<open>
  \<^verbatim>\<open>Body()\<close>: the map \<open>m\<close> gets the status when it is valid; an empty map is the
  patch-params error; otherwise the map is marshalled.
\<close>

definition PatchClaimsParams_Body :: "'a json \<Rightarrow> PatchClaimsParams \<Rightarrow> go_error + string" where
  "PatchClaimsParams_Body js p =
     (let m = [];
          m = (if PatchClaimsParams.Status p \<noteq> [] \<and> ClaimStatus_Valid (PatchClaimsParams.Status p)
               then m @ [(''status'', PatchClaimsParams.Status p)] else m)
      in if length m = 0 then Inl ErrInvalidPatchClaimsParams
         else (case Marshal js m of
                 Inl err \<Rightarrow> Inl (ErrorOther err)
               | Inr b \<Rightarrow> Inr b))"

definition PatchClaims ::
  "Claim json \<Rightarrow> RequestRunner \<Rightarrow> PatchClaimsParams \<Rightarrow>
     (Claim option \<times> go_error option) \<times> Request list" where
  "PatchClaims js runner p =
     (if \<not> PatchClaimsParams_Validate p then ((None, Some ErrInvalidPatchClaimsParams), [])
      else
        (case PatchClaimsParams_Body js p of
           Inl err \<Rightarrow> ((None, Some err), [])
         | Inr body \<Rightarrow>
             (let req = \<lparr>Method = ''PATCH'', Url = PatchClaimsParams_Url p,
                         Params = PatchClaimsParams_Params p, Body = Some body\<rparr>
              in case runner req of
                   Inl err \<Rightarrow> ((None, Some err), [req])
                 | Inr res \<Rightarrow>
                     (case DecodeResponse js res (Some zeroClaim) of
                        (Some err, _) \<Rightarrow> ((None, Some err), [req])
                      | (None, out) \<Rightarrow> ((out, None), [req])))))"

section \<open>The whitelist operations\<close>

definition ErrNotWhitelisted :: go_error where
  "ErrNotWhitelisted = ErrorsNew ''not whitelisted''"

definition ErrRateLimited :: go_error where
  "ErrRateLimited = ErrorsNew ''rate limited''"

definition WhitelistUrl :: string where
  "WhitelistUrl = YoutubePartnerV1 @ ''/whitelists''"

record Whitelist =
  Id :: string
  Title :: string

definition zeroWhitelist :: Whitelist where
  "zeroWhitelist = \<lparr>Id = [], Title = []\<rparr>"

text \<open>
  \<^verbatim>\<open>convertWhitelistError\<close>: nil stays nil; an error that is not a \<^verbatim>\<open>*Error\<close> is
  returned as it is; a \<^verbatim>\<open>*Error\<close> with status 404 becomes \<^verbatim>\<open>ErrNotWhitelisted\<close>, one
  with status 403 whose \<^verbatim>\<open>Body\<close> contains \<^verbatim>\<open>quotaExceeded\<close> becomes
  \<^verbatim>\<open>ErrRateLimited\<close>.
\<close>

fun convertWhitelistError :: "go_error option \<Rightarrow> go_error option" where
  "convertWhitelistError None = None"
| "convertWhitelistError (Some (ErrorPointer v)) =
     (if Error.StatusCode v = 404 then Some ErrNotWhitelisted
      else if Error.StatusCode v = 403 \<and> Index (Error.Body v) ''quotaExceeded'' > - 1
        then Some ErrRateLimited
      else Some (ErrorPointer v))"
| "convertWhitelistError (Some err) = Some err"

record GetWhitelistParams =
  Id :: string
  OnBehalfOfContentOwner :: string

definition GetWhitelistParams_Values :: "GetWhitelistParams \<Rightarrow> Values" where
  "GetWhitelistParams_Values p =
     Values_Add [] ''onBehalfOfContentOwner'' (GetWhitelistParams.OnBehalfOfContentOwner p)"

definition GetWhitelist ::
  "Whitelist json \<Rightarrow> RequestRunner \<Rightarrow> GetWhitelistParams \<Rightarrow>
     (Whitelist option \<times> go_error option) \<times> Request list" where
  "GetWhitelist js runner p =
     (let req = \<lparr>Method = ''GET'', Url = WhitelistUrl @ ''/'' @ GetWhitelistParams.Id p,
                 Params = GetWhitelistParams_Values p, Body = None\<rparr>
      in case runner req of
           Inl err \<Rightarrow> ((None, Some err), [req])
         | Inr res \<Rightarrow>
             (case DecodeResponse js res (Some zeroWhitelist) of
                (Some err, _) \<Rightarrow> ((None, convertWhitelistError (Some err)), [req])
              | (None, out) \<Rightarrow> ((out, None), [req])))"

record InsertWhitelistParams =
  Id :: string
  OnBehalfOfContentOwner :: string

definition InsertWhitelistParams_Body :: "'a json \<Rightarrow> InsertWhitelistParams \<Rightarrow> go_error + string" where
  "InsertWhitelistParams_Body js p =
     (let m = [(''kind'', ''youtubePartner#whitelist''), (''id'', InsertWhitelistParams.Id p)]
      in case Marshal js m of
           Inl err \<Rightarrow> Inl (ErrorOther err)
         | Inr b \<Rightarrow> Inr b)"

definition InsertWhitelistParams_Values :: "InsertWhitelistParams \<Rightarrow> Values" where
  "InsertWhitelistParams_Values p =
     Values_Add [] ''onBehalfOfContentOwner'' (InsertWhitelistParams.OnBehalfOfContentOwner p)"

definition InsertWhitelist ::
  "Whitelist json \<Rightarrow> RequestRunner \<Rightarrow> InsertWhitelistParams \<Rightarrow>
     (Whitelist option \<times> go_error option) \<times> Request list" where
  "InsertWhitelist js runner p =
     (case InsertWhitelistParams_Body js p of
        Inl err \<Rightarrow> ((None, Some err), [])
      | Inr body \<Rightarrow>
          (let req = \<lparr>Method = ''POST'', Url = WhitelistUrl,
                      Params = InsertWhitelistParams_Values p, Body = Some body\<rparr>
           in case runner req of
                Inl err \<Rightarrow> ((None, Some err), [req])
              | Inr res \<Rightarrow>
                  (case DecodeResponse js res (Some zeroWhitelist) of
                     (Some err, _) \<Rightarrow> ((None, convertWhitelistError (Some err)), [req])
                   | (None, out) \<Rightarrow> ((out, None), [req]))))"

record DeleteWhitelistParams =
  Id :: string
  OnBehalfOfContentOwner :: string

definition DeleteWhitelistParams_Values :: "DeleteWhitelistParams \<Rightarrow> Values" where
  "DeleteWhitelistParams_Values p =
     Values_Add [] ''onBehalfOfContentOwner'' (DeleteWhitelistParams.OnBehalfOfContentOwner p)"

text \<open>\<^verbatim>\<open>DeleteWhitelist\<close> decodes with a nil target; the whole package has one
  \<^verbatim>\<open>DecodeResponse\<close>, that of request.go.\<close>

definition DeleteWhitelist ::
  "Whitelist json \<Rightarrow> RequestRunner \<Rightarrow> DeleteWhitelistParams \<Rightarrow> go_error option \<times> Request list" where
  "DeleteWhitelist js runner p =
     (let req = \<lparr>Method = ''DELETE'', Url = WhitelistUrl @ ''/'' @ DeleteWhitelistParams.Id p,
                 Params = DeleteWhitelistParams_Values p, Body = None\<rparr>
      in case runner req of
           Inl err \<Rightarrow> (Some err, [req])
         | Inr res \<Rightarrow> (convertWhitelistError (fst (DecodeResponse js res None)), [req]))"

section \<open>video.go\<close>

definition ListVideosUrl :: string where
  "ListVideosUrl = BaseUrlV3 @ ''/videos''"

record VideoSnippet =
  CategoryId :: string
  ChannelId :: string
  ChannelTitle :: string
  Description :: string
  PublishedAt :: string
  Tags :: "string list"
  Title :: string

record Video =
  Id :: string
  Snippet :: "VideoSnippet option"

record PageInfo =
  ResultsPerPage :: int
  TotalResults :: int

record ListVideosResponse =
  Items :: "Video list"
  NextPageToken :: string
  PageInfo :: "PageInfo option"

definition zeroListVideosResponse :: ListVideosResponse where
  "zeroListVideosResponse = \<lparr>Items = [], NextPageToken = [], PageInfo = None\<rparr>"

type_synonym ListVideoParamsPart = string

definition ListVideoParamsPartSnippet :: ListVideoParamsPart where
  "ListVideoParamsPartSnippet = ''snippet''"

record ListVideoParams =
  Parts :: "ListVideoParamsPart list"
  Ids :: "string list"
  PageToken :: string

definition convertParts :: "ListVideoParams \<Rightarrow> string list" where
  "convertParts o' =
     (if length (Parts o') = 0 then []
      else foldl (\<lambda>p prompt. p @ [prompt]) [] (Parts o'))"

definition ListVideoParams_Values :: "ListVideoParams \<Rightarrow> Values" where
  "ListVideoParams_Values o' =
     (let vals = [];
          vals = Values_Add vals ''part'' (Join (convertParts o') '','');
          vals = (if ListVideoParams.PageToken o' \<noteq> []
                  then Values_Add vals ''pageToken'' (ListVideoParams.PageToken o')
                  else if length (Ids o') > 0 then Values_Add vals ''id'' (Join (Ids o') '','')
                  else vals)
      in vals)"

definition ListVideos ::
  "ListVideosResponse json \<Rightarrow> RequestRunner \<Rightarrow> ListVideoParams \<Rightarrow>
     (ListVideosResponse option \<times> go_error option) \<times> Request list" where
  "ListVideos js runner p =
     (let req = \<lparr>Method = ''GET'', Url = ListVideosUrl,
                 Params = ListVideoParams_Values p, Body = None\<rparr>
      in case runner req of
           Inl err \<Rightarrow> ((None, Some err), [req])
         | Inr res \<Rightarrow>
             (case DecodeResponse js res (Some zeroListVideosResponse) of
                (Some err, _) \<Rightarrow> ((None, Some err), [req])
              | (None, out) \<Rightarrow> ((out, None), [req])))"

section \<open>The access-token runner\<close>

text \<open>
  \<^verbatim>\<open>net/http\<close> is a library: \<open>NewRequest\<close> is \<^verbatim>\<open>http.NewRequest(method, url, body)\<close>,
  which refuses a malformed method or URL, and \<open>Do timeout req\<close> is \<^verbatim>\<open>client.Do(req)\<close>
  of an \<^verbatim>\<open>http.Client\<close> with that timeout. Both are parameters of the model. An
  \<^verbatim>\<open>http.Request\<close> is its method, its URL as handed to \<open>NewRequest\<close>, its header and
  its body.
\<close>

record HttpRequest =
  Method :: string
  URL :: string
  Header :: Values
  Body :: "string option"

record http =
  NewRequest :: "string \<Rightarrow> string \<Rightarrow> string option \<Rightarrow> go_error + HttpRequest"
  Do :: "int \<Rightarrow> HttpRequest \<Rightarrow> go_error + Response"

record AccessTokenRunner =
  AccessToken :: string
  Timeout :: int

definition AccessTokenRunner_Run :: "http \<Rightarrow> AccessTokenRunner \<Rightarrow> RequestRunner" where
  "AccessTokenRunner_Run h runner r =
     (case NewRequest h (Request.Method r) (Url r @ ''?'' @ Values_Encode (Params r))
             (Request.Body r) of
        Inl err \<Rightarrow> Inl err
      | Inr req \<Rightarrow>
          (let req = (if AccessToken runner \<noteq> []
                      then req\<lparr>Header := Values_Add (Header req) ''Authorization''
                                             (''Bearer '' @ AccessToken runner)\<rparr>
                      else req)
           in Do h (Timeout runner) req))"

section \<open>Concrete inputs\<close>

text \<open>
  The inputs of the worked examples below: the search parameters with a status only,
  the video listing of the specification's scenario, three responses, two runners that
  answer without a network, and one instance of the JSON library. The instance decodes
  the error body \<^verbatim>\<open>{"error":"not_found"}\<close> into the error tag and refuses every other
  text; it marshals a map of strings without escaping.
\<close>

definition quote :: "string \<Rightarrow> string" where
  "quote s = CHR 0x22 # s @ [CHR 0x22]"

definition notFoundBody :: string where
  "notFoundBody = ''{'' @ quote ''error'' @ '':'' @ quote ''not_found'' @ ''}''"

definition quotaExceededBody :: string where
  "quotaExceededBody = ''{'' @ quote ''error'' @ '':'' @ quote ''quotaExceeded'' @ ''}''"

definition notFoundResponse :: Response where
  "notFoundResponse = \<lparr>StatusCode = 404, Body = NewReader notFoundBody\<rparr>"

definition quotaExceededResponse :: Response where
  "quotaExceededResponse = \<lparr>StatusCode = 403, Body = NewReader quotaExceededBody\<rparr>"

definition okResponse :: Response where
  "okResponse = \<lparr>StatusCode = 200, Body = NewReader ''{}''\<rparr>"

definition mockRunner :: "Response \<Rightarrow> RequestRunner" where
  "mockRunner res r = Inr res"

definition failingRunner :: RequestRunner where
  "failingRunner r = Inl (ErrorOther ''connection refused'')"

definition exampleJSON :: "'a json" where
  "exampleJSON =
     \<lparr>DecodeError = (\<lambda>r e.
          if pending r = notFoundBody \<and> failure r = None
          then (None, e\<lparr>ErrorType := ErrTypeUpstream ''not_found''\<rparr>, r\<lparr>pending := []\<rparr>)
          else (Some ''json: cannot decode'', e, r\<lparr>pending := []\<rparr>)),
      Decode = (\<lambda>r v. (Some ''json: cannot decode'', v, r\<lparr>pending := []\<rparr>)),
      DecodeNil = (\<lambda>r. (''json: Unmarshal(nil)'', r\<lparr>pending := []\<rparr>)),
      Marshal = (\<lambda>m. Inr (''{'' @ Join (map (\<lambda>(k, v). quote k @ '':'' @ quote v) m) '','' @ ''}''))\<rparr>"

definition statusOnly :: SearchClaimsParams where
  "statusOnly =
     \<lparr>SearchClaimsParams.AssetId = [], Q = [], ReferenceId = [], VideoIds = [],
      SearchClaimsParams.PageToken = [], SearchClaimsParams.Status = ClaimStatusActive,
      IncludeThirdPartyClaims = False, SearchClaimsParams.OnBehalfOfContentOwner = [],
      Sort = [], StatusModifiedAfter = []\<rparr>"

definition invalidPatch :: PatchClaimsParams where
  "invalidPatch =
     \<lparr>ClaimId = ''c1'', PatchClaimsParams.OnBehalfOfContentOwner = [],
      PatchClaimsParams.Status = ''released''\<rparr>"

definition snippetById :: ListVideoParams where
  "snippetById = \<lparr>Parts = [ListVideoParamsPartSnippet], Ids = [''abc123''], PageToken = []\<rparr>"

definition pagedById :: ListVideoParams where
  "pagedById = \<lparr>Parts = [], Ids = [''abc123''], PageToken = ''CAUQAA''\<rparr>"

section \<open>Claim search: Validate\<close>

lemmas ClaimStatus_defs = ClaimStatusActive_def ClaimStatusAppealed_def ClaimStatusDisputed_def
  ClaimStatusInactive_def ClaimStatusPending_def ClaimStatusPotential_def
  ClaimStatusRoutedForReview_def ClaimStatusTakedown_def

lemma ClaimStatus_Valid_nonempty: "ClaimStatus_Valid s \<Longrightarrow> s \<noteq> []"
  by (auto simp: ClaimStatus_Valid_def ClaimStatus_defs)

text \<open>
  What \<^verbatim>\<open>Validate\<close> computes: the status counts among the required entries, so a
  valid status leaves no room for any of the four filters.
\<close>

lemma SearchClaimsParams_Validate_iff:
  "SearchClaimsParams_Validate p \<longleftrightarrow>
     SearchClaimsParams.AssetId p = [] \<and> Q p = [] \<and> ReferenceId p = [] \<and>
     Join (VideoIds p) '','' = [] \<and> ClaimStatus_Valid (SearchClaimsParams.Status p)"
  by (auto simp: SearchClaimsParams_Validate_def Let_def dest: ClaimStatus_Valid_nonempty)

text \<open>
  Claim C1, as the specification states it, fails: with none of the four filters set and
  the status \<^verbatim>\<open>active\<close>, \<^verbatim>\<open>Validate\<close> returns true, as the comment in the code says
  ("If status is provided, it is not necessary to have one of the above").
\<close>

theorem SearchClaimsParams_Validate_status_only_counterexample:
  "filtersSet statusOnly = 0 \<and> SearchClaimsParams_Validate statusOnly"
  by (simp add: statusOnly_def filtersSet_def SearchClaimsParams_Validate_iff
      ClaimStatus_Valid_def)

text \<open>
  Claim C1, amended: \<^verbatim>\<open>Validate\<close> returns false if more than one of AssetId, Q,
  ReferenceId and VideoIds is set, or if Status is empty or not one of the eight
  recognised values.
\<close>

theorem SearchClaimsParams_Validate_rejects:
  "1 < filtersSet p \<or> SearchClaimsParams.Status p = [] \<or>
   \<not> ClaimStatus_Valid (SearchClaimsParams.Status p) \<Longrightarrow>
   \<not> SearchClaimsParams_Validate p"
  unfolding SearchClaimsParams_Validate_iff filtersSet_def
  by (auto split: if_splits dest: ClaimStatus_Valid_nonempty)

text \<open>The amended claim C1 at an input with two filters set and a valid status.\<close>

theorem SearchClaimsParams_Validate_rejects_witness:
  "1 < filtersSet (statusOnly\<lparr>SearchClaimsParams.AssetId := ''a'', Q := ''b''\<rparr>) \<and>
   \<not> SearchClaimsParams_Validate (statusOnly\<lparr>SearchClaimsParams.AssetId := ''a'', Q := ''b''\<rparr>)"
  using SearchClaimsParams_Validate_rejects
    [of "statusOnly\<lparr>SearchClaimsParams.AssetId := ''a'', Q := ''b''\<rparr>"]
  by (simp add: statusOnly_def filtersSet_def)

text \<open>
  Claim C2 says that exactly one filter together with a valid status validates. The
  code rejects it: with AssetId \<^verbatim>\<open>a\<close> and status \<^verbatim>\<open>active\<close> the loop counts two
  non-empty entries, the filter and the status, and \<^verbatim>\<open>Validate\<close> returns false.
\<close>

theorem SearchClaimsParams_Validate_one_filter_rejected:
  "filtersSet (statusOnly\<lparr>SearchClaimsParams.AssetId := ''a''\<rparr>) = 1 \<and>
   ClaimStatus_Valid (SearchClaimsParams.Status (statusOnly\<lparr>SearchClaimsParams.AssetId := ''a''\<rparr>)) \<and>
   \<not> SearchClaimsParams_Validate (statusOnly\<lparr>SearchClaimsParams.AssetId := ''a''\<rparr>)"
  by (simp add: statusOnly_def filtersSet_def SearchClaimsParams_Validate_iff
      ClaimStatus_Valid_def)

section \<open>Claim search: the date filter\<close>

text \<open>
  The key \<^verbatim>\<open>statusModifiedAfter\<close> is emitted exactly when the string is not empty
  and contains a match of the pattern; a string that is a date as a whole contains one.
\<close>

lemma map_of_Values_Add_other:
  "key' \<noteq> key \<Longrightarrow> map_of (Values_Add m key val) key' = map_of m key'"
  by (induction m key val rule: Values_Add.induct) auto

lemma map_of_Values_Add_fresh:
  "map_of m key = None \<Longrightarrow> map_of (Values_Add m key val) key = Some [val]"
  by (induction m key val rule: Values_Add.induct) (auto split: if_splits)

lemma Values_lookup_if_Add:
  "key' \<noteq> key \<Longrightarrow>
   Values_lookup (if c then Values_Add m key val else m) key' = Values_lookup m key'"
  by (simp add: Values_lookup_def map_of_Values_Add_other)

lemma SearchClaimsParams_Values_statusModifiedAfter:
  "Values_lookup (SearchClaimsParams_Values p) ''statusModifiedAfter'' =
     (if StatusModifiedAfter p \<noteq> [] \<and> DateRegexp_MatchString (StatusModifiedAfter p)
      then Some [StatusModifiedAfter p] else None)"
proof -
  let ?k = "''statusModifiedAfter''"
  define v1 where "v1 = (if SearchClaimsParams.AssetId p \<noteq> []
      then Values_Add [] ''assetId'' (SearchClaimsParams.AssetId p) else [])"
  define v2 where "v2 = (if Q p \<noteq> [] then Values_Add v1 ''q'' (Q p) else v1)"
  define v3 where "v3 = (if ReferenceId p \<noteq> []
      then Values_Add v2 ''referenceId'' (ReferenceId p) else v2)"
  define v4 where "v4 = (if length (VideoIds p) > 0
      then Values_Add v3 ''videoId'' (Join (VideoIds p) '','') else v3)"
  define v5 where "v5 = (if SearchClaimsParams.Status p \<noteq> []
      then Values_Add v4 ''status'' (SearchClaimsParams.Status p) else v4)"
  define v6 where "v6 = (if IncludeThirdPartyClaims p
      then Values_Add v5 ''includeThirdPartyClaims'' ''true''
      else Values_Add v5 ''includeThirdPartyClaims'' ''false'')"
  define v7 where "v7 = (if SearchClaimsParams.OnBehalfOfContentOwner p \<noteq> []
      then Values_Add v6 ''onBehalfOfContentOwner'' (SearchClaimsParams.OnBehalfOfContentOwner p)
      else v6)"
  define v8 where "v8 = (if SearchClaimsParams.PageToken p \<noteq> []
      then Values_Add v7 ''pageToken'' (SearchClaimsParams.PageToken p) else v7)"
  define v9 where "v9 = (if Sort p = ClaimSortDate then Values_Add v8 ''sort'' ''date''
      else if Sort p = ClaimSortViewCount then Values_Add v8 ''sort'' ''viewCount'' else v8)"
  have n1: "Values_lookup v1 ?k = None"
    unfolding v1_def by (simp add: Values_lookup_if_Add) (simp add: Values_lookup_def)
  have n2: "Values_lookup v2 ?k = None"
    unfolding v2_def using n1 by (simp add: Values_lookup_if_Add)
  have n3: "Values_lookup v3 ?k = None"
    unfolding v3_def using n2 by (simp add: Values_lookup_if_Add)
  have n4: "Values_lookup v4 ?k = None"
    unfolding v4_def using n3 by (simp add: Values_lookup_if_Add)
  have n5: "Values_lookup v5 ?k = None"
    unfolding v5_def using n4 by (simp add: Values_lookup_if_Add)
  have n6: "Values_lookup v6 ?k = None"
    unfolding v6_def using n5 by (simp add: Values_lookup_def map_of_Values_Add_other)
  have n7: "Values_lookup v7 ?k = None"
    unfolding v7_def using n6 by (simp add: Values_lookup_if_Add)
  have n8: "Values_lookup v8 ?k = None"
    unfolding v8_def using n7 by (simp add: Values_lookup_if_Add)
  have n9: "Values_lookup v9 ?k = None"
    unfolding v9_def using n8 by (simp add: Values_lookup_def map_of_Values_Add_other)
  have v: "SearchClaimsParams_Values p =
      (if StatusModifiedAfter p \<noteq> [] \<and> DateRegexp_MatchString (StatusModifiedAfter p)
       then Values_Add v9 ?k (StatusModifiedAfter p) else v9)"
    unfolding SearchClaimsParams_Values_def Let_def v9_def v8_def v7_def v6_def v5_def v4_def
      v3_def v2_def v1_def by (rule refl)
  show ?thesis
    unfolding v using n9 by (simp add: Values_lookup_def map_of_Values_Add_fresh)
qed

lemma matchesDateExactly_MatchString: "matchesDateExactly s \<Longrightarrow> DateRegexp_MatchString s"
  by (cases s) (auto simp: matchesDateExactly_def)

text \<open>
  Claim C4 says that the key \<^verbatim>\<open>statusModifiedAfter\<close> is emitted only for a string that
  is a date as a whole. The pattern has no anchors: for the valid parameters with status
  \<^verbatim>\<open>active\<close> and the date string \<^verbatim>\<open>x2016-06-30\<close>, which is not a date as a whole,
  \<^verbatim>\<open>Values\<close> emits the key with that string.
\<close>

theorem SearchClaimsParams_Values_unanchored_date:
  "SearchClaimsParams_Validate (statusOnly\<lparr>StatusModifiedAfter := ''x2016-06-30''\<rparr>) \<and>
   Values_lookup (SearchClaimsParams_Values (statusOnly\<lparr>StatusModifiedAfter := ''x2016-06-30''\<rparr>))
     ''statusModifiedAfter'' = Some [''x2016-06-30''] \<and>
   \<not> matchesDateExactly ''x2016-06-30''"
  by (simp add: statusOnly_def SearchClaimsParams_Validate_iff ClaimStatus_Valid_def
      SearchClaimsParams_Values_def Values_lookup_def isDigit_def ClaimSortDate_def
      ClaimSortViewCount_def matchesDateExactly_def ClaimStatusActive_def)

section \<open>Claim patch\<close>

text \<open>
  Claim C5: when the status is empty or not a valid value, \<^verbatim>\<open>Body\<close> returns
  \<^verbatim>\<open>ErrInvalidPatchClaimsParams\<close>, and \<^verbatim>\<open>PatchClaims\<close> returns that error and hands no
  request to the runner.
\<close>

theorem PatchClaims_invalid_status:
  "PatchClaimsParams.Status p = [] \<or> \<not> ClaimStatus_Valid (PatchClaimsParams.Status p) \<Longrightarrow>
   PatchClaimsParams_Body js p = Inl ErrInvalidPatchClaimsParams \<and>
   PatchClaims js' runner p = ((None, Some ErrInvalidPatchClaimsParams), [])"
  by (auto simp: PatchClaimsParams_Body_def PatchClaims_def PatchClaimsParams_Validate_def
      Let_def)

text \<open>Claim C5 at a patch whose status \<^verbatim>\<open>released\<close> is not one of the eight values.\<close>

theorem PatchClaims_invalid_status_witness:
  "\<not> ClaimStatus_Valid (PatchClaimsParams.Status invalidPatch) \<and>
   PatchClaimsParams_Body (exampleJSON :: Claim json) invalidPatch =
     Inl ErrInvalidPatchClaimsParams \<and>
   PatchClaims exampleJSON (mockRunner okResponse) invalidPatch =
     ((None, Some ErrInvalidPatchClaimsParams), [])"
  using PatchClaims_invalid_status
    [of invalidPatch "exampleJSON :: Claim json" exampleJSON "mockRunner okResponse"]
  by (simp add: invalidPatch_def ClaimStatus_Valid_def ClaimStatus_defs)

section \<open>Video listing\<close>

text \<open>
  Claim C6: \<^verbatim>\<open>Values\<close> always holds the key \<^verbatim>\<open>part\<close>, with the empty string as
  its value when there are no parts, and when the page token is not empty the key
  \<^verbatim>\<open>id\<close> is absent, whatever the ids.
\<close>

theorem ListVideoParams_Values_part_and_pageToken:
  "Values_lookup (ListVideoParams_Values p) ''part'' = Some [Join (convertParts p) '',''] \<and>
   (Parts p = [] \<longrightarrow> Values_lookup (ListVideoParams_Values p) ''part'' = Some [[]]) \<and>
   (ListVideoParams.PageToken p \<noteq> [] \<longrightarrow> Values_lookup (ListVideoParams_Values p) ''id'' = None)"
  by (simp add: ListVideoParams_Values_def Values_lookup_def convertParts_def Let_def)

text \<open>Claim C6 at parameters with no parts, one id and a page token.\<close>

theorem ListVideoParams_Values_part_and_pageToken_witness:
  "Parts pagedById = [] \<and> ListVideoParams.PageToken pagedById \<noteq> [] \<and> Ids pagedById \<noteq> [] \<and>
   Values_lookup (ListVideoParams_Values pagedById) ''part'' = Some [[]] \<and>
   Values_lookup (ListVideoParams_Values pagedById) ''id'' = None"
  using ListVideoParams_Values_part_and_pageToken [of pagedById]
  by (simp add: pagedById_def convertParts_def)

lemma snippetById_Values:
  "ListVideoParams_Values snippetById = [(''part'', [''snippet'']), (''id'', [''abc123''])]"
  by (simp add: ListVideoParams_Values_def snippetById_def convertParts_def
      ListVideoParamsPartSnippet_def)

lemma snippetById_Encode:
  "Values_Encode [(''part'', [''snippet'']), (''id'', [''abc123''])] = ''id=abc123&part=snippet''"
  unfolding Values_Encode_def by (simp add: shouldEscape_def)

text \<open>
  Claim C9, as the specification states it, fails: \<^verbatim>\<open>Encode\<close> writes the keys in
  sorted order, so the query string of the scenario starts with \<^verbatim>\<open>id\<close>.
\<close>

theorem ListVideos_query_counterexample:
  "Values_Encode (ListVideoParams_Values snippetById) \<noteq> ''part=snippet&id=abc123''"
  by (simp add: snippetById_Values snippetById_Encode)

text \<open>
  Claim C9, amended: for the parts \<^verbatim>\<open>[snippet]\<close>, the ids \<^verbatim>\<open>[abc123]\<close> and no page
  token, \<^verbatim>\<open>ListVideos\<close> hands the runner one GET request on the videos URL with the
  parameters \<^verbatim>\<open>part\<close> and \<^verbatim>\<open>id\<close>; their encoded form is
  \<^verbatim>\<open>id=abc123&part=snippet\<close>, and the access-token runner builds its HTTP request on
  the videos URL followed by \<^verbatim>\<open>?id=abc123&part=snippet\<close>.
\<close>

theorem ListVideos_query_sorted:
  "snd (ListVideos js runner snippetById) =
     [\<lparr>Request.Method = ''GET'', Url = ListVideosUrl,
       Params = [(''part'', [''snippet'']), (''id'', [''abc123''])], Body = None\<rparr>] \<and>
   Values_Encode (ListVideoParams_Values snippetById) = ''id=abc123&part=snippet'' \<and>
   AccessTokenRunner_Run h tok
       \<lparr>Request.Method = ''GET'', Url = ListVideosUrl,
        Params = [(''part'', [''snippet'']), (''id'', [''abc123''])], Body = None\<rparr> =
     (case NewRequest h ''GET''
             ''https://www.googleapis.com/youtube/v3/videos?id=abc123&part=snippet'' None of
        Inl err \<Rightarrow> Inl err
      | Inr req \<Rightarrow>
          Do h (Timeout tok)
            (if AccessToken tok \<noteq> []
             then req\<lparr>Header := Values_Add (Header req) ''Authorization''
                                   (''Bearer '' @ AccessToken tok)\<rparr>
             else req))"
proof -
  have issued: "snd (ListVideos js runner snippetById) =
     [\<lparr>Request.Method = ''GET'', Url = ListVideosUrl,
       Params = [(''part'', [''snippet'']), (''id'', [''abc123''])], Body = None\<rparr>]"
    by (simp add: ListVideos_def snippetById_Values Let_def
        split: sum.splits prod.splits option.splits)
  have query: "Values_Encode (ListVideoParams_Values snippetById) = ''id=abc123&part=snippet''"
    by (simp add: snippetById_Values snippetById_Encode)
  have run: "AccessTokenRunner_Run h tok
       \<lparr>Request.Method = ''GET'', Url = ListVideosUrl,
        Params = [(''part'', [''snippet'']), (''id'', [''abc123''])], Body = None\<rparr> =
     (case NewRequest h ''GET''
             ''https://www.googleapis.com/youtube/v3/videos?id=abc123&part=snippet'' None of
        Inl err \<Rightarrow> Inl err
      | Inr req \<Rightarrow>
          Do h (Timeout tok)
            (if AccessToken tok \<noteq> []
             then req\<lparr>Header := Values_Add (Header req) ''Authorization''
                                   (''Bearer '' @ AccessToken tok)\<rparr>
             else req))"
    by (simp add: AccessTokenRunner_Run_def snippetById_Encode ListVideosUrl_def BaseUrlV3_def
        Let_def split: sum.splits)
  from issued query run show ?thesis by (intro conjI)
qed

section \<open>DecodeResponse\<close>

text \<open>
  Claim C7: for a response with status 404 and the body \<^verbatim>\<open>{"error":"not_found"}\<close>,
  which the JSON library decodes as an \<^verbatim>\<open>Error\<close>, \<^verbatim>\<open>DecodeResponse\<close> returns the
  typed error with status code 404 and the parsed tag, description and body: the tag is
  not replaced by the unknown tag and the description is not replaced by the raw body.
\<close>

theorem DecodeResponse_404_structured:
  "Response.StatusCode res = 404 \<Longrightarrow> Response.Body res = NewReader notFoundBody \<Longrightarrow>
   DecodeError js (NewReader notFoundBody) zeroError = (None, e, rest) \<Longrightarrow>
   fst (DecodeResponse js res out) =
     Some (ErrorValue \<lparr>Error.StatusCode = 404, ErrorType = ErrorType e,
                        Error.Description = Error.Description e, Error.Body = Error.Body e\<rparr>)"
  by (simp add: DecodeResponse_def ReadAll_def NewReader_def)

text \<open>Claim C7 with the example JSON library, which parses the body into the tag.\<close>

theorem DecodeResponse_404_structured_witness:
  "Response.StatusCode notFoundResponse = 404 \<and>
   Response.Body notFoundResponse = NewReader notFoundBody \<and>
   DecodeError (exampleJSON :: Whitelist json) (NewReader notFoundBody) zeroError =
     (None, zeroError\<lparr>ErrorType := ErrTypeUpstream ''not_found''\<rparr>, NewReader []) \<and>
   fst (DecodeResponse exampleJSON notFoundResponse (Some zeroWhitelist)) =
     Some (ErrorValue \<lparr>Error.StatusCode = 404, ErrorType = ErrTypeUpstream ''not_found'',
                        Error.Description = [], Error.Body = []\<rparr>)"
proof -
  have parsed: "DecodeError (exampleJSON :: Whitelist json) (NewReader notFoundBody) zeroError =
     (None, zeroError\<lparr>ErrorType := ErrTypeUpstream ''not_found''\<rparr>, NewReader [])"
    by (simp add: exampleJSON_def NewReader_def)
  show ?thesis
    using parsed DecodeResponse_404_structured
      [of notFoundResponse exampleJSON "zeroError\<lparr>ErrorType := ErrTypeUpstream ''not_found''\<rparr>"
        "NewReader []" "Some zeroWhitelist"]
    by (simp add: notFoundResponse_def zeroError_def)
qed

text \<open>
  Every error that \<^verbatim>\<open>DecodeResponse\<close> returns is an \<^verbatim>\<open>Error\<close> struct by value or the
  error of reading the body; none is a \<^verbatim>\<open>*Error\<close>.
\<close>

lemma DecodeResponse_error_kinds:
  "fst (DecodeResponse js res out) = Some err \<Longrightarrow>
   (\<exists>e. err = ErrorValue e) \<or> (\<exists>m. err = ErrorOther m)"
  by (auto simp: DecodeResponse_def split: if_splits prod.splits sum.splits option.splits)

lemma convertWhitelistError_DecodeResponse:
  "convertWhitelistError (fst (DecodeResponse js res out)) = fst (DecodeResponse js res out)"
proof (cases "fst (DecodeResponse js res out)")
  case None
  then show ?thesis by simp
next
  case (Some err)
  with DecodeResponse_error_kinds [OF Some] show ?thesis by auto
qed

text \<open>On a \<^verbatim>\<open>*Error\<close> the remap does what its comment says.\<close>

lemma convertWhitelistError_pointer:
  "convertWhitelistError (Some (ErrorPointer (v\<lparr>Error.StatusCode := 404\<rparr>))) =
     Some ErrNotWhitelisted"
  "Index b ''quotaExceeded'' > - 1 \<Longrightarrow>
   convertWhitelistError (Some (ErrorPointer (v\<lparr>Error.StatusCode := 403, Error.Body := b\<rparr>))) =
     Some ErrRateLimited"
  by simp_all

text \<open>
  Claim C3 says that the remap turns a 404 error of \<^verbatim>\<open>DecodeResponse\<close> into
  \<^verbatim>\<open>ErrNotWhitelisted\<close> and a 403 error with \<^verbatim>\<open>quotaExceeded\<close> in its body into
  \<^verbatim>\<open>ErrRateLimited\<close>. The code does neither: \<^verbatim>\<open>convertWhitelistError\<close> asserts the
  type \<^verbatim>\<open>*Error\<close>, and \<^verbatim>\<open>DecodeResponse\<close> returns \<^verbatim>\<open>Error\<close> by value, so the error
  passes through as it is. For the 404 response and for the 403 response whose body
  contains \<^verbatim>\<open>quotaExceeded\<close>, whatever the JSON library does, the result of the remap
  is not the sentinel, and \<^verbatim>\<open>GetWhitelist\<close> does not return \<^verbatim>\<open>ErrNotWhitelisted\<close>.
\<close>

theorem convertWhitelistError_never_remaps_DecodeResponse:
  "Index quotaExceededBody ''quotaExceeded'' > - 1 \<and>
   convertWhitelistError (fst (DecodeResponse js notFoundResponse out)) \<noteq> Some ErrNotWhitelisted \<and>
   convertWhitelistError (fst (DecodeResponse js quotaExceededResponse out)) \<noteq> Some ErrRateLimited \<and>
   snd (fst (GetWhitelist jw (mockRunner notFoundResponse) p)) \<noteq> Some ErrNotWhitelisted"
proof -
  have contained: "Index quotaExceededBody ''quotaExceeded'' > - 1"
    by (simp add: quotaExceededBody_def quote_def)
  have no_sentinel: "fst (DecodeResponse js res out) \<noteq> Some (ErrorsNew m)" for res m
    using DecodeResponse_error_kinds [of js res out "ErrorsNew m"] by auto
  have get: "snd (fst (GetWhitelist jw (mockRunner notFoundResponse) p)) \<noteq> Some ErrNotWhitelisted"
    by (auto simp: GetWhitelist_def mockRunner_def Let_def DecodeResponse_def
        notFoundResponse_def ReadAll_def NewReader_def ErrNotWhitelisted_def
        split: prod.splits option.splits)
  show ?thesis using contained no_sentinel get
    by (simp add: convertWhitelistError_DecodeResponse ErrNotWhitelisted_def ErrRateLimited_def)
qed

section \<open>The two versions of DecodeResponse\<close>

lemma NewReader_pending: "failure r = None \<Longrightarrow> NewReader (pending r) = r"
  by (cases r) (simp add: NewReader_def)

lemma DecodeResponse_agree_success:
  assumes "Response.StatusCode res < 400" and "out \<noteq> None"
  shows "DecodeResponse js res out = DecodeResponse_part_006 js res out"
proof -
  from assms(2) obtain v where v: "out = Some v" by (cases out) auto
  show ?thesis using assms(1)
    by (simp add: v DecodeResponse_def DecodeResponse_part_006_def
        split: prod.splits option.splits sum.splits)
qed

lemma DecodeResponse_agree_structured:
  assumes s: "400 \<le> Response.StatusCode res" and f: "failure (Response.Body res) = None"
    and ok: "fst (DecodeError js (Response.Body res) zeroError) = None"
  shows "DecodeResponse js res out = DecodeResponse_part_006 js res out"
proof -
  obtain e rest where d: "DecodeError js (Response.Body res) zeroError = (None, e, rest)"
    using ok by (cases "DecodeError js (Response.Body res) zeroError") auto
  have r: "ReadAll (Response.Body res) =
      (Inr (pending (Response.Body res)), (Response.Body res)\<lparr>pending := []\<rparr>)"
    using f by (simp add: ReadAll_def)
  have n: "NewReader (pending (Response.Body res)) = Response.Body res"
    using f by (rule NewReader_pending)
  have a: "DecodeResponse js res out =
      (Some (ErrorValue (e\<lparr>Error.StatusCode := Response.StatusCode res\<rparr>)), out)"
    unfolding DecodeResponse_def using s by (simp add: r n d)
  have b: "DecodeResponse_part_006 js res out =
      (Some (ErrorValue (e\<lparr>Error.StatusCode := Response.StatusCode res\<rparr>)), out)"
    unfolding DecodeResponse_part_006_def using s by (simp add: d)
  from a b show ?thesis by simp
qed

text \<open>
  With a nil target and a status below 400 the two versions never agree: request.go
  returns nil, the other version decodes into nil and returns the error of that.
\<close>

lemma DecodeResponse_nil_differ:
  assumes "Response.StatusCode res < 400"
  shows "fst (DecodeResponse js res None) = None"
    and "fst (DecodeResponse_part_006 js res None) \<noteq> None"
  using assms
  by (auto simp: DecodeResponse_def DecodeResponse_part_006_def
      split: prod.splits option.splits sum.splits)

text \<open>
  With a body that does not decode as an \<^verbatim>\<open>Error\<close> the two versions differ as soon as
  the decoder has consumed a part of the body: request.go describes the error by the whole
  body, the other version by what the decoder left. With the example library, which
  reads the body to its end:
\<close>

lemma DecodeResponse_unparseable_example:
  "fst (DecodeResponse (exampleJSON :: Whitelist json)
          \<lparr>StatusCode = 500, Body = NewReader ''Internal Server Error''\<rparr> None) =
     Some (ErrorValue \<lparr>Error.StatusCode = 500, ErrorType = ErrTypeUnknown,
                        Error.Description = ''Internal Server Error'', Error.Body = []\<rparr>)"
  "fst (DecodeResponse_part_006 (exampleJSON :: Whitelist json)
          \<lparr>StatusCode = 500, Body = NewReader ''Internal Server Error''\<rparr> None) =
     Some (ErrorValue \<lparr>Error.StatusCode = 500, ErrorType = ErrTypeUnknown,
                        Error.Description = [], Error.Body = []\<rparr>)"
  by (simp_all add: DecodeResponse_def DecodeResponse_part_006_def exampleJSON_def
      NewReader_def ReadAll_def zeroError_def notFoundBody_def quote_def)

text \<open>
  Claim C10, as stated, fails: for the response with status 200 and a nil target,
  \<^verbatim>\<open>DecodeResponse\<close> of request.go returns nil and the other version returns a typed
  JSON error.
\<close>

theorem DecodeResponse_nil_target_counterexample:
  "fst (DecodeResponse (exampleJSON :: Whitelist json) okResponse None) = None \<and>
   fst (DecodeResponse_part_006 (exampleJSON :: Whitelist json) okResponse None) =
     Some (ErrorValue \<lparr>Error.StatusCode = 0, ErrorType = ErrTypeJSON,
                        Error.Description = ''json: Unmarshal(nil)'', Error.Body = []\<rparr>)"
  by (simp add: DecodeResponse_def DecodeResponse_part_006_def okResponse_def exampleJSON_def
      NewReader_def ReadAll_def)

text \<open>
  Claim C10, amended: the two versions of \<^verbatim>\<open>DecodeResponse\<close> return the same error
  and leave the same target when the status is below 400 and the target is not nil, and
  when the status is at least 400, the body is read without a failure and it decodes as
  an \<^verbatim>\<open>Error\<close>.
\<close>

theorem DecodeResponse_part_006_agree:
  "(Response.StatusCode res < 400 \<and> out \<noteq> None) \<or>
   (400 \<le> Response.StatusCode res \<and> failure (Response.Body res) = None \<and>
    fst (DecodeError js (Response.Body res) zeroError) = None) \<Longrightarrow>
   DecodeResponse js res out = DecodeResponse_part_006 js res out"
proof (erule disjE)
  assume "Response.StatusCode res < 400 \<and> out \<noteq> None"
  then show ?thesis by (simp add: DecodeResponse_agree_success)
next
  assume "400 \<le> Response.StatusCode res \<and> failure (Response.Body res) = None \<and>
    fst (DecodeError js (Response.Body res) zeroError) = None"
  then show ?thesis by (simp add: DecodeResponse_agree_structured)
qed

text \<open>The amended claim C10 at the 404 response, which the example library decodes.\<close>

theorem DecodeResponse_part_006_agree_witness:
  "400 \<le> Response.StatusCode notFoundResponse \<and>
   failure (Response.Body notFoundResponse) = None \<and>
   fst (DecodeError (exampleJSON :: Whitelist json) (Response.Body notFoundResponse) zeroError) = None \<and>
   DecodeResponse (exampleJSON :: Whitelist json) notFoundResponse (Some zeroWhitelist) =
     DecodeResponse_part_006 exampleJSON notFoundResponse (Some zeroWhitelist) \<and>
   fst (DecodeResponse_part_006 (exampleJSON :: Whitelist json) notFoundResponse (Some zeroWhitelist)) =
     Some (ErrorValue \<lparr>Error.StatusCode = 404, ErrorType = ErrTypeUpstream ''not_found'',
                        Error.Description = [], Error.Body = []\<rparr>)"
proof -
  have h: "400 \<le> Response.StatusCode notFoundResponse \<and>
   failure (Response.Body notFoundResponse) = None \<and>
   fst (DecodeError (exampleJSON :: Whitelist json) (Response.Body notFoundResponse) zeroError) = None"
    by (simp add: notFoundResponse_def NewReader_def exampleJSON_def)
  have v: "fst (DecodeResponse_part_006 (exampleJSON :: Whitelist json) notFoundResponse
      (Some zeroWhitelist)) =
     Some (ErrorValue \<lparr>Error.StatusCode = 404, ErrorType = ErrTypeUpstream ''not_found'',
                        Error.Description = [], Error.Body = []\<rparr>)"
    by (simp add: DecodeResponse_part_006_def notFoundResponse_def NewReader_def exampleJSON_def
        zeroError_def)
  from h have "DecodeResponse (exampleJSON :: Whitelist json) notFoundResponse (Some zeroWhitelist) =
     DecodeResponse_part_006 exampleJSON notFoundResponse (Some zeroWhitelist)"
    by (intro DecodeResponse_part_006_agree) simp
  with h v show ?thesis by simp
qed

section \<open>Whitelist operations and the channel id\<close>

text \<open>
  Claim C8, as the specification states it, fails: \<^verbatim>\<open>GetWhitelist\<close> with an empty
  channel id hands the runner a GET request on the whitelist URL followed by a slash.
\<close>

theorem GetWhitelist_empty_id_counterexample:
  "snd (GetWhitelist exampleJSON failingRunner
          \<lparr>GetWhitelistParams.Id = [], OnBehalfOfContentOwner = []\<rparr>) =
     [\<lparr>Request.Method = ''GET'',
       Url = ''https://www.googleapis.com/youtube/partner/v1/whitelists/'',
       Params = [(''onBehalfOfContentOwner'', [[]])], Body = None\<rparr>]"
  by (simp add: GetWhitelist_def failingRunner_def GetWhitelistParams_Values_def WhitelistUrl_def
      YoutubePartnerV1_def)

text \<open>
  Claim C8, amended: the whitelist operations do not validate the channel id. Whatever
  the id, also an empty one, \<^verbatim>\<open>GetWhitelist\<close> and \<^verbatim>\<open>DeleteWhitelist\<close> hand the runner
  exactly one request, on the whitelist URL followed by a slash and the id, and
  \<^verbatim>\<open>InsertWhitelist\<close> hands the runner exactly one POST request on the whitelist URL
  when its body marshals and none when it does not; each request carries the key
  \<^verbatim>\<open>onBehalfOfContentOwner\<close>.
\<close>

theorem whitelist_operations_issue_request:
  "snd (GetWhitelist js runner g) =
     [\<lparr>Request.Method = ''GET'', Url = WhitelistUrl @ ''/'' @ GetWhitelistParams.Id g,
       Params = [(''onBehalfOfContentOwner'', [GetWhitelistParams.OnBehalfOfContentOwner g])],
       Body = None\<rparr>] \<and>
   snd (DeleteWhitelist js runner d) =
     [\<lparr>Request.Method = ''DELETE'', Url = WhitelistUrl @ ''/'' @ DeleteWhitelistParams.Id d,
       Params = [(''onBehalfOfContentOwner'', [DeleteWhitelistParams.OnBehalfOfContentOwner d])],
       Body = None\<rparr>] \<and>
   snd (InsertWhitelist js runner i) =
     (case Marshal js [(''kind'', ''youtubePartner#whitelist''), (''id'', InsertWhitelistParams.Id i)] of
        Inl err \<Rightarrow> []
      | Inr body \<Rightarrow>
          [\<lparr>Request.Method = ''POST'', Url = WhitelistUrl,
            Params = [(''onBehalfOfContentOwner'', [InsertWhitelistParams.OnBehalfOfContentOwner i])],
            Body = Some body\<rparr>])"
proof -
  have get: "snd (GetWhitelist js runner g) =
     [\<lparr>Request.Method = ''GET'', Url = WhitelistUrl @ ''/'' @ GetWhitelistParams.Id g,
       Params = [(''onBehalfOfContentOwner'', [GetWhitelistParams.OnBehalfOfContentOwner g])],
       Body = None\<rparr>]"
    by (simp add: GetWhitelist_def GetWhitelistParams_Values_def Let_def
        split: sum.splits prod.splits option.splits)
  have del: "snd (DeleteWhitelist js runner d) =
     [\<lparr>Request.Method = ''DELETE'', Url = WhitelistUrl @ ''/'' @ DeleteWhitelistParams.Id d,
       Params = [(''onBehalfOfContentOwner'', [DeleteWhitelistParams.OnBehalfOfContentOwner d])],
       Body = None\<rparr>]"
    by (simp add: DeleteWhitelist_def DeleteWhitelistParams_Values_def Let_def
        split: sum.splits)
  have ins: "snd (InsertWhitelist js runner i) =
     (case Marshal js [(''kind'', ''youtubePartner#whitelist''), (''id'', InsertWhitelistParams.Id i)] of
        Inl err \<Rightarrow> []
      | Inr body \<Rightarrow>
          [\<lparr>Request.Method = ''POST'', Url = WhitelistUrl,
            Params = [(''onBehalfOfContentOwner'', [InsertWhitelistParams.OnBehalfOfContentOwner i])],
            Body = Some body\<rparr>])"
    by (simp add: InsertWhitelist_def InsertWhitelistParams_Values_def
        InsertWhitelistParams_Body_def Let_def
        split: sum.splits prod.splits option.splits)
  from get del ins show ?thesis by (intro conjI)
qed

end
